theory Spec2Isabelle
  imports Complex_Main "HOL-Library.Sublist"
begin

section \<open>The example Python provider plugin (plugin.py)\<close>

text \<open>
  The plugin is a Flask application with a process-wide \<open>config\<close> dictionary and the
  handlers \<open>initialize\<close>, \<open>health_check\<close> and \<open>chat_completions\<close>. Each handler is
  embedded as a function of the configuration, of the decoded request body and of an
  environment that stands for what the handler obtains from outside the file: the
  HTTP client (\<open>requests\<close>), the clock and Python's value formatting.
\<close>

subsection \<open>Python floats\<close>

text \<open>
  A Python float is an IEEE 754 binary64 value. Finite values are kept as the exact
  real number they denote (\<open>Finite 0\<close> is \<open>+0.0\<close>); rounding to 53 significant bits,
  round-half-to-even, is written out in \<open>round_double\<close>.
\<close>

datatype pyfloat = Finite real | NegZero | PosInf | NegInf | NaN

definition pow2 :: "int \<Rightarrow> real" where
  "pow2 e = (if 0 \<le> e then 2 ^ nat e else 1 / 2 ^ nat (- e))"

function bit_length :: "int \<Rightarrow> nat" where
  "bit_length n = (if n \<le> 0 then 0 else Suc (bit_length (n div 2)))"
  by pat_completeness auto
termination
  by (relation "measure nat") auto

declare bit_length.simps [simp del]

definition floor_log2 :: "real \<Rightarrow> int" where
  \<comment> \<open>for \<open>0 < a\<close>: the exponent \<open>e\<close> with \<open>2 ^ e \<le> a < 2 ^ (e + 1)\<close>\<close>
  "floor_log2 a =
     (if 1 \<le> a then int (bit_length \<lfloor>a\<rfloor>) - 1
      else - int (bit_length (\<lceil>1 / a\<rceil> - 1)))"

definition round_half_even :: "real \<Rightarrow> int" where
  "round_half_even q =
     (let f = \<lfloor>q\<rfloor>; d = q - of_int f
      in if d < 1 / 2 then f
         else if 1 / 2 < d then f + 1
         else if even f then f else f + 1)"

definition round_double :: "real \<Rightarrow> pyfloat" where
  \<comment> \<open>the binary64 value nearest to a non-zero real; exponents below \<open>-1022\<close> are
      subnormal, magnitudes from \<open>2 ^ 1024\<close> on overflow to an infinity\<close>
  "round_double r =
     (let a = \<bar>r\<bar>;
          e = max (floor_log2 a) (- 1022);
          ulp = pow2 (e - 52);
          m = of_int (round_half_even (a / ulp)) * ulp
      in if pow2 1024 \<le> m then (if 0 < r then PosInf else NegInf)
         else if m = 0 then (if 0 < r then Finite 0 else NegZero)
         else Finite (if 0 < r then m else - m))"

fun float_negative :: "pyfloat \<Rightarrow> bool" where
  "float_negative (Finite r) = (r < 0)"
| "float_negative NegZero = True"
| "float_negative PosInf = False"
| "float_negative NegInf = True"
| "float_negative NaN = False"

definition float_is_zero :: "pyfloat \<Rightarrow> bool" where
  "float_is_zero x = (x = Finite 0 \<or> x = NegZero)"

definition float_is_inf :: "pyfloat \<Rightarrow> bool" where
  "float_is_inf x = (x = PosInf \<or> x = NegInf)"

definition float_mul :: "pyfloat \<Rightarrow> pyfloat \<Rightarrow> pyfloat" where
  "float_mul x y =
     (if x = NaN \<or> y = NaN then NaN
      else if (float_is_inf x \<and> float_is_zero y) \<or> (float_is_zero x \<and> float_is_inf y) then NaN
      else let neg = (float_negative x \<noteq> float_negative y)
           in if float_is_inf x \<or> float_is_inf y then (if neg then NegInf else PosInf)
              else if float_is_zero x \<or> float_is_zero y then (if neg then NegZero else Finite 0)
              else (case (x, y) of
                      (Finite a, Finite b) \<Rightarrow> round_double (a * b)
                    | _ \<Rightarrow> NaN))"

subsection \<open>Python exceptions\<close>

text \<open>
  The exceptions the handlers can meet. \<open>RequestsTimeout\<close> is \<open>requests.Timeout\<close>, the
  only class a handler tells apart; every other one is caught by \<open>except Exception\<close>.
\<close>

datatype py_exc =
    RequestsTimeout
  | AttributeError
  | TypeError
  | KeyError string
  | OverflowError
  | JSONDecodeError
  | OtherException string

definition float_of_int :: "int \<Rightarrow> py_exc + pyfloat" where
  \<comment> \<open>the conversion \<open>int * float\<close> performs on its left operand: correctly rounded,
      \<open>OverflowError\<close> when the integer is too large for a double\<close>
  "float_of_int n =
     (if n = 0 then Inr (Finite 0)
      else (case round_double (of_int n) of
              PosInf \<Rightarrow> Inl OverflowError
            | NegInf \<Rightarrow> Inl OverflowError
            | x \<Rightarrow> Inr x))"

subsection \<open>JSON values and dictionaries\<close>

datatype json =
    JNull
  | JBool bool
  | JInt int
  | JFloat pyfloat
  | JStr string
  | JArr "json list"
  | JObj "(string \<times> json) list"

type_synonym dict = "(string \<times> json) list"

text \<open>
  A dictionary is an association list in insertion order. Storing under a key that is
  present replaces the value in place, storing under a new key appends, as a Python
  \<open>dict\<close> does.
\<close>

fun dict_set :: "string \<Rightarrow> json \<Rightarrow> dict \<Rightarrow> dict" where
  "dict_set k v [] = [(k, v)]"
| "dict_set k v (p # ps) = (if fst p = k then (k, v) # ps else p # dict_set k v ps)"

definition dict_update :: "dict \<Rightarrow> dict \<Rightarrow> dict" where
  \<comment> \<open>\<open>d.update(other)\<close>: the items of \<open>other\<close> are stored one by one, in order\<close>
  "dict_update d other = fold (\<lambda>(k, v) acc. dict_set k v acc) other d"

fun truthy :: "json \<Rightarrow> bool" where
  "truthy JNull = False"
| "truthy (JBool b) = b"
| "truthy (JInt n) = (n \<noteq> 0)"
| "truthy (JFloat x) = (\<not> float_is_zero x)"
| "truthy (JStr s) = (s \<noteq> [])"
| "truthy (JArr xs) = (xs \<noteq> [])"
| "truthy (JObj kvs) = (kvs \<noteq> [])"

fun py_get :: "json \<Rightarrow> string \<Rightarrow> json \<Rightarrow> py_exc + json" where
  \<comment> \<open>\<open>obj.get(key, default)\<close>: only a dict has the method\<close>
  "py_get (JObj kvs) k dflt = Inr (case map_of kvs k of None \<Rightarrow> dflt | Some v \<Rightarrow> v)"
| "py_get _ k dflt = Inl AttributeError"

fun py_contains :: "string \<Rightarrow> json \<Rightarrow> py_exc + bool" where
  \<comment> \<open>\<open>key in obj\<close> for a string \<open>key\<close>: key membership in a dict, element membership in
      a list, substring test in a string, \<open>TypeError\<close> otherwise\<close>
  "py_contains k (JObj kvs) = Inr (k \<in> fst ` set kvs)"
| "py_contains k (JArr xs) = Inr (JStr k \<in> set xs)"
| "py_contains k (JStr s) = Inr (sublist k s)"
| "py_contains k _ = Inl TypeError"

fun py_index :: "json \<Rightarrow> string \<Rightarrow> py_exc + json" where
  \<comment> \<open>\<open>obj[key]\<close> for a string \<open>key\<close>\<close>
  "py_index (JObj kvs) k = (case map_of kvs k of None \<Rightarrow> Inl (KeyError k) | Some v \<Rightarrow> Inr v)"
| "py_index _ k = Inl TypeError"

subsection \<open>The error classifier (chat\_completions, lines 290-300)\<close>

definition classify :: "int \<Rightarrow> string" where
  "classify status_code =
     (if status_code = 401 then ''authentication_failed''
      else if status_code = 429 then ''rate_limit_exceeded''
      else if status_code = 404 then ''model_not_found''
      else if status_code \<ge> 500 then ''provider_unavailable''
      else ''internal_error'')"

definition error_kinds :: "string list" where
  \<comment> \<open>the closed taxonomy of the plugin protocol\<close>
  "error_kinds =
     [''invalid_request'', ''authentication_failed'', ''rate_limit_exceeded'',
      ''model_not_found'', ''provider_unavailable'', ''timeout'', ''internal_error'']"

subsection \<open>Responses, upstream calls and the environment\<close>

record plugin_error =
  code :: string
  message :: json
  transient :: bool
  details :: "(int \<times> int) option"  \<comment> \<open>\<open>status_code\<close> and \<open>latency_ms\<close>\<close>

record health_report =
  healthy :: bool
  health_message :: string
  latency_ms :: int
  timestamp :: string
  health_details :: "(string \<times> nat) option"  \<comment> \<open>\<open>provider_status\<close> and \<open>models_available\<close>\<close>

datatype body = ErrorBody plugin_error | JsonBody json | HealthBody health_report

type_synonym response = "body \<times> int"  \<comment> \<open>the \<open>jsonify\<close> body and the HTTP status\<close>

record http_call =
  call_method :: string
  call_url :: string
  call_authorization :: string
  call_content_type :: "string option"
  call_json :: "json option"
  call_timeout :: json

record upstream_response =
  resp_status :: int
  resp_content_type :: "string option"  \<comment> \<open>\<open>resp.headers.get('content-type')\<close>\<close>
  resp_text :: string
  resp_json :: "py_exc + json"  \<comment> \<open>what \<open>resp.json()\<close> returns or raises\<close>

datatype net_outcome = Responds upstream_response | Raises py_exc

text \<open>
  The environment of one handler run: \<open>send\<close> is the \<open>requests\<close> call, \<open>fmt\<close> is
  Python's formatting of a value that is not a string inside an f-string, \<open>exc_str\<close>
  is \<open>str(e)\<close>, \<open>elapsed_ms\<close> is the value of
  \<open>int((datetime.now() - start_time).total_seconds() * 1000)\<close> and \<open>now_iso\<close> the value
  of \<open>datetime.now().isoformat()\<close>.
\<close>

record env =
  send :: "http_call \<Rightarrow> net_outcome"
  fmt :: "json \<Rightarrow> string"
  exc_str :: "py_exc \<Rightarrow> string"
  elapsed_ms :: int
  now_iso :: string

fun py_fstr :: "env \<Rightarrow> json \<Rightarrow> string" where
  "py_fstr E (JStr s) = s"
| "py_fstr E v = fmt E v"

definition initial_config :: dict where
  "initial_config =
     [(''api_key'', JStr []),
      (''endpoint'', JStr ''https://api.openai.com/v1''),
      (''timeout'', JInt 30)]"

definition MODELS :: "string list" where
  \<comment> \<open>the ids of the two catalogue entries\<close>
  "MODELS = [''gpt-4'', ''gpt-3.5-turbo'']"

definition config_get :: "dict \<Rightarrow> string \<Rightarrow> json" where
  \<comment> \<open>\<open>config.get(key)\<close>, \<open>None\<close> when the key is missing\<close>
  "config_get cfg k = (case map_of cfg k of None \<Rightarrow> JNull | Some v \<Rightarrow> v)"

definition is_initialized :: "dict \<Rightarrow> bool" where
  \<comment> \<open>the test of health\_check, line 180: \<open>config.get('api_key')\<close> is truthy\<close>
  "is_initialized cfg = truthy (config_get cfg ''api_key'')"

definition models_call :: "env \<Rightarrow> json \<Rightarrow> json \<Rightarrow> http_call" where
  "models_call E ep key =
     \<lparr>call_method = ''GET'', call_url = py_fstr E ep @ ''/models'',
      call_authorization = ''Bearer '' @ py_fstr E key,
      call_content_type = None, call_json = None, call_timeout = JInt 5\<rparr>"

subsection \<open>initialize (lines 129-170)\<close>

definition invalid_request :: "string \<Rightarrow> response" where
  "invalid_request msg =
     (ErrorBody \<lparr>code = ''invalid_request'', message = JStr msg, transient = False,
                 details = None\<rparr>, 400)"

definition internal_error :: "env \<Rightarrow> py_exc \<Rightarrow> response" where
  "internal_error E e =
     (ErrorBody \<lparr>code = ''internal_error'', message = JStr (exc_str E e), transient = False,
                 details = None\<rparr>, 500)"

definition probe_calls :: "env \<Rightarrow> dict \<Rightarrow> http_call list" where
  \<comment> \<open>the inner \<open>try\<close> of lines 150-159: the result of the request, an exception of it
      and a \<open>KeyError\<close> while the arguments are built are all dropped\<close>
  "probe_calls E cfg =
     (case map_of cfg ''endpoint'' of
        None \<Rightarrow> []
      | Some ep \<Rightarrow>
         (case map_of cfg ''api_key'' of
            None \<Rightarrow> []
          | Some key \<Rightarrow> [models_call E ep key]))"

definition initialize_try :: "env \<Rightarrow> dict \<Rightarrow> py_exc + json \<Rightarrow> (py_exc + response) \<times> dict \<times> http_call list" where
  "initialize_try E cfg rq =
     (case rq of
        Inl e \<Rightarrow> (Inl e, cfg, [])
      | Inr j \<Rightarrow>
         (case (if truthy j then j else JObj []) of
            JObj new_config \<Rightarrow>
              if ''api_key'' \<notin> fst ` set new_config
              then (Inr (invalid_request ''api_key is required''), cfg, [])
              else let cfg' = dict_update cfg new_config
                   in (Inr (JsonBody (JObj []), 200), cfg', probe_calls E cfg')
          | _ \<Rightarrow> (Inl AttributeError, cfg, [])))"

definition initialize :: "env \<Rightarrow> dict \<Rightarrow> py_exc + json \<Rightarrow> response \<times> dict \<times> http_call list" where
  "initialize E cfg rq =
     (case initialize_try E cfg rq of
        (Inr r, cfg', calls) \<Rightarrow> (r, cfg', calls)
      | (Inl e, cfg', calls) \<Rightarrow> (internal_error E e, cfg', calls))"

subsection \<open>health\_check (lines 173-232)\<close>

definition unhealthy :: "env \<Rightarrow> string \<Rightarrow> response" where
  "unhealthy E msg =
     (HealthBody \<lparr>healthy = False, health_message = msg, latency_ms = elapsed_ms E,
                  timestamp = now_iso E, health_details = None\<rparr>, 200)"

definition health_check_try :: "env \<Rightarrow> dict \<Rightarrow> (py_exc + response) \<times> http_call list" where
  "health_check_try E cfg =
     (if \<not> truthy (config_get cfg ''api_key'')
      then (Inr (HealthBody \<lparr>healthy = False, health_message = ''Not initialized'',
                            latency_ms = 0, timestamp = now_iso E,
                            health_details = None\<rparr>, 200), [])
      else (case map_of cfg ''endpoint'' of
              None \<Rightarrow> (Inl (KeyError ''endpoint''), [])
            | Some ep \<Rightarrow>
               (case map_of cfg ''api_key'' of
                  None \<Rightarrow> (Inl (KeyError ''api_key''), [])
                | Some key \<Rightarrow>
                   (let call = models_call E ep key
                    in case send E call of
                         Raises e \<Rightarrow> (Inl e, [call])
                       | Responds resp \<Rightarrow>
                           if resp_status resp = 200
                           then (Inr (HealthBody \<lparr>healthy = True, health_message = ''OK'',
                                        latency_ms = elapsed_ms E, timestamp = now_iso E,
                                        health_details = Some (''connected'', length MODELS)\<rparr>,
                                      200), [call])
                           else (Inr (unhealthy E (''Provider returned status ''
                                        @ fmt E (JInt (resp_status resp)))), [call])))))"

definition health_check :: "env \<Rightarrow> dict \<Rightarrow> response \<times> http_call list" where
  "health_check E cfg =
     (case health_check_try E cfg of
        (Inr r, calls) \<Rightarrow> (r, calls)
      | (Inl RequestsTimeout, calls) \<Rightarrow> (unhealthy E ''Health check timeout'', calls)
      | (Inl e, calls) \<Rightarrow> (unhealthy E (exc_str E e), calls))"

subsection \<open>chat\_completions (lines 235-327)\<close>

definition cost_per_token :: pyfloat where
  \<comment> \<open>the literal \<open>0.00003\<close>\<close>
  "cost_per_token = round_double (3 / 100000)"

fun py_mul_float :: "json \<Rightarrow> pyfloat \<Rightarrow> py_exc + pyfloat" where
  \<comment> \<open>\<open>value * c\<close> for a float \<open>c\<close>\<close>
  "py_mul_float (JInt n) c =
     (case float_of_int n of Inl e \<Rightarrow> Inl e | Inr x \<Rightarrow> Inr (float_mul x c))"
| "py_mul_float (JBool b) c = Inr (float_mul (Finite (if b then 1 else 0)) c)"
| "py_mul_float (JFloat x) c = Inr (float_mul x c)"
| "py_mul_float _ c = Inl TypeError"

definition add_cost :: "json \<Rightarrow> py_exc + json" where
  \<comment> \<open>lines 277-281\<close>
  "add_cost result =
     (case py_contains ''usage'' result of
        Inl e \<Rightarrow> Inl e
      | Inr False \<Rightarrow> Inr result
      | Inr True \<Rightarrow>
         (case py_index result ''usage'' of
            Inl e \<Rightarrow> Inl e
          | Inr usage \<Rightarrow>
             (case py_contains ''total_tokens'' usage of
                Inl e \<Rightarrow> Inl e
              | Inr False \<Rightarrow> Inr result
              | Inr True \<Rightarrow>
                 (case py_index usage ''total_tokens'' of
                    Inl e \<Rightarrow> Inl e
                  | Inr tokens \<Rightarrow>
                     (case py_mul_float tokens cost_per_token of
                        Inl e \<Rightarrow> Inl e
                      | Inr cost \<Rightarrow>
                         (case (result, usage) of
                            (JObj kvs, JObj u) \<Rightarrow>
                              Inr (JObj (dict_set ''usage''
                                     (JObj (dict_set ''cost_usd'' (JFloat cost) u)) kvs))
                          | _ \<Rightarrow> Inl TypeError))))))"

definition transient_kinds :: "string list" where
  "transient_kinds = [''rate_limit_exceeded'', ''provider_unavailable'', ''timeout'']"

definition handle_upstream :: "env \<Rightarrow> upstream_response \<Rightarrow> py_exc + response" where
  \<comment> \<open>lines 272-312, after \<open>requests.post\<close> has returned\<close>
  "handle_upstream E resp =
     (if resp_status resp = 200
      then (case resp_json resp of
              Inl e \<Rightarrow> Inl e
            | Inr result \<Rightarrow>
               (case add_cost result of
                  Inl e \<Rightarrow> Inl e
                | Inr r \<Rightarrow> Inr (JsonBody r, 200)))
      else (case (if resp_content_type resp = Some ''application/json''
                  then resp_json resp else Inr (JObj [])) of
              Inl e \<Rightarrow> Inl e
            | Inr error_body \<Rightarrow>
               (case py_get error_body ''error'' (JObj []) of
                  Inl e \<Rightarrow> Inl e
                | Inr err \<Rightarrow>
                   (case py_get err ''message'' (JStr (resp_text resp)) of
                      Inl e \<Rightarrow> Inl e
                    | Inr error_msg \<Rightarrow>
                       (let c = classify (resp_status resp)
                        in Inr (ErrorBody \<lparr>code = c, message = error_msg,
                                   transient = (c \<in> set transient_kinds),
                                   details = Some (resp_status resp, elapsed_ms E)\<rparr>,
                                 resp_status resp))))))"

definition completion_call :: "env \<Rightarrow> dict \<Rightarrow> json \<Rightarrow> json \<Rightarrow> json \<Rightarrow> http_call" where
  "completion_call E cfg key ep req_data =
     \<lparr>call_method = ''POST'', call_url = py_fstr E ep @ ''/chat/completions'',
      call_authorization = ''Bearer '' @ py_fstr E key,
      call_content_type = Some ''application/json'', call_json = Some req_data,
      call_timeout = (case map_of cfg ''timeout'' of None \<Rightarrow> JInt 30 | Some t \<Rightarrow> t)\<rparr>"

definition chat_completions_try :: "env \<Rightarrow> dict \<Rightarrow> py_exc + json \<Rightarrow> (py_exc + response) \<times> http_call list" where
  "chat_completions_try E cfg rq =
     (case rq of
        Inl e \<Rightarrow> (Inl e, [])
      | Inr req_data \<Rightarrow>
         (case py_get req_data ''model'' JNull of
            Inl e \<Rightarrow> (Inl e, [])
          | Inr model \<Rightarrow>
             if \<not> truthy model then (Inr (invalid_request ''model is required''), [])
             else (case py_get req_data ''messages'' JNull of
                     Inl e \<Rightarrow> (Inl e, [])
                   | Inr messages \<Rightarrow>
                      if \<not> truthy messages
                      then (Inr (invalid_request ''messages is required''), [])
                      else (case map_of cfg ''api_key'' of
                              None \<Rightarrow> (Inl (KeyError ''api_key''), [])
                            | Some key \<Rightarrow>
                               (case map_of cfg ''endpoint'' of
                                  None \<Rightarrow> (Inl (KeyError ''endpoint''), [])
                                | Some ep \<Rightarrow>
                                   (let call = completion_call E cfg key ep req_data
                                    in case send E call of
                                         Raises e \<Rightarrow> (Inl e, [call])
                                       | Responds resp \<Rightarrow>
                                           (handle_upstream E resp, [call])))))))"

definition chat_completions :: "env \<Rightarrow> dict \<Rightarrow> py_exc + json \<Rightarrow> response \<times> http_call list" where
  "chat_completions E cfg rq =
     (case chat_completions_try E cfg rq of
        (Inr r, calls) \<Rightarrow> (r, calls)
      | (Inl RequestsTimeout, calls) \<Rightarrow>
          ((ErrorBody \<lparr>code = ''timeout'', message = JStr ''Request timeout'',
                       transient = True, details = None\<rparr>, 504), calls)
      | (Inl e, calls) \<Rightarrow> (internal_error E e, calls))"

definition nested_error_message :: "upstream_response \<Rightarrow> json option" where
  \<comment> \<open>the field \<open>error.message\<close> of a response body that is a JSON object with an object
      under \<open>error\<close>\<close>
  "nested_error_message resp =
     (case resp_json resp of
        Inr (JObj b) \<Rightarrow>
          (case map_of b ''error'' of
             Some (JObj eo) \<Rightarrow> map_of eo ''message''
           | _ \<Rightarrow> None)
      | _ \<Rightarrow> None)"

subsection \<open>Concrete inputs for the instances below\<close>

definition example_env :: "net_outcome \<Rightarrow> env" where
  \<comment> \<open>an environment whose upstream always answers \<open>out\<close>\<close>
  "example_env out =
     \<lparr>send = (\<lambda>_. out), fmt = (\<lambda>_. ''?''), exc_str = (\<lambda>_. ''error''),
      elapsed_ms = 12, now_iso = ''2024-01-01T00:00:00''\<rparr>"

definition example_request :: json where
  "example_request =
     JObj [(''model'', JStr ''gpt-4''),
           (''messages'', JArr [JObj [(''role'', JStr ''user''), (''content'', JStr ''hi'')]])]"

definition example_call :: http_call where
  \<comment> \<open>the upstream call for \<open>example_request\<close> under the start-up configuration\<close>
  "example_call =
     \<lparr>call_method = ''POST'', call_url = ''https://api.openai.com/v1/chat/completions'',
      call_authorization = ''Bearer '', call_content_type = Some ''application/json'',
      call_json = Some example_request, call_timeout = JInt 30\<rparr>"

section \<open>Properties\<close>

subsection \<open>Dictionaries\<close>

lemma map_of_dict_set: "map_of (dict_set k v d) = (map_of d)(k \<mapsto> v)"
  by (induction d) (auto simp: fun_eq_iff)

lemma map_of_dict_update:
  "map_of (dict_update d other) k =
     (case map_of (rev other) k of None \<Rightarrow> map_of d k | Some v \<Rightarrow> Some v)"
  unfolding dict_update_def
proof (induction other arbitrary: d)
  case Nil
  then show ?case by simp
next
  case (Cons p ps)
  obtain a b where p: "p = (a, b)" by (cases p)
  show ?case
    by (simp add: p Cons.IH map_of_dict_set map_add_def split: option.splits)
qed

lemma dict_update_supplied:
  assumes "distinct (map fst other)" and "(k, v) \<in> set other"
  shows "map_of (dict_update d other) k = Some v"
proof -
  have "distinct (map fst (rev other))" using assms(1) by (simp add: rev_map [symmetric])
  moreover have "(k, v) \<in> set (rev other)" using assms(2) by simp
  ultimately have "map_of (rev other) k = Some v" by (rule map_of_is_SomeI)
  then show ?thesis by (simp add: map_of_dict_update)
qed

lemma dict_update_absent:
  assumes "k \<notin> fst ` set other"
  shows "map_of (dict_update d other) k = map_of d k"
proof -
  have "map_of (rev other) k = None" using assms by (simp add: map_of_eq_None_iff)
  then show ?thesis by (simp add: map_of_dict_update)
qed

text \<open>
  The keys \<open>api_key\<close> and \<open>endpoint\<close> are in the start-up configuration and no handler
  removes a key, so every configuration the plugin reaches has both.
\<close>

lemma initial_config_keys:
  "map_of initial_config ''api_key'' = Some (JStr []) \<and>
   map_of initial_config ''endpoint'' = Some (JStr ''https://api.openai.com/v1'') \<and>
   map_of initial_config ''timeout'' = Some (JInt 30)"
  by (simp add: initial_config_def)

lemma initialize_keeps_keys:
  assumes "initialize E cfg rq = (r, cfg', calls)" and "k \<in> dom (map_of cfg)"
  shows "k \<in> dom (map_of cfg')"
proof -
  have "cfg' = cfg \<or> (\<exists>flds. cfg' = dict_update cfg flds)"
    using assms(1)
    by (auto simp: initialize_def initialize_try_def Let_def
        split: sum.splits json.splits if_splits)
  then show ?thesis
    using assms(2) by (auto simp: map_of_dict_update split: option.splits)
qed

subsection \<open>The handlers, path by path\<close>

lemma initialize_success:
  assumes "initialize E cfg rq = ((b, 200), cfg', calls)"
  shows "\<exists>flds. rq = Inr (JObj flds) \<and> ''api_key'' \<in> fst ` set flds \<and>
           b = JsonBody (JObj []) \<and> cfg' = dict_update cfg flds \<and>
           calls = probe_calls E cfg'"
  using assms
  by (auto simp: initialize_def initialize_try_def internal_error_def invalid_request_def Let_def
      split: sum.splits json.splits if_splits)

lemma initialize_object:
  "''api_key'' \<in> fst ` set flds \<Longrightarrow>
   initialize E cfg (Inr (JObj flds)) =
     ((JsonBody (JObj []), 200), dict_update cfg flds, probe_calls E (dict_update cfg flds))"
  by (auto simp: initialize_def initialize_try_def Let_def)

lemma health_check_cases:
  "health_check E cfg =
    (if \<not> is_initialized cfg
     then ((HealthBody \<lparr>healthy = False, health_message = ''Not initialized'', latency_ms = 0,
                   timestamp = now_iso E, health_details = None\<rparr>, 200), [])
     else (case map_of cfg ''endpoint'' of
             None \<Rightarrow> (unhealthy E (exc_str E (KeyError ''endpoint'')), [])
           | Some ep \<Rightarrow>
              (case send E (models_call E ep (config_get cfg ''api_key'')) of
                 Raises RequestsTimeout \<Rightarrow>
                   (unhealthy E ''Health check timeout'',
                    [models_call E ep (config_get cfg ''api_key'')])
               | Raises e \<Rightarrow>
                   (unhealthy E (exc_str E e), [models_call E ep (config_get cfg ''api_key'')])
               | Responds resp \<Rightarrow>
                   if resp_status resp = 200
                   then ((HealthBody \<lparr>healthy = True, health_message = ''OK'',
                            latency_ms = elapsed_ms E, timestamp = now_iso E,
                            health_details = Some (''connected'', 2)\<rparr>, 200),
                         [models_call E ep (config_get cfg ''api_key'')])
                   else (unhealthy E (''Provider returned status ''
                           @ fmt E (JInt (resp_status resp))),
                         [models_call E ep (config_get cfg ''api_key'')]))))"
  by (auto simp: health_check_def health_check_try_def is_initialized_def config_get_def
        MODELS_def Let_def
      split: option.splits net_outcome.splits py_exc.splits)

lemma chat_completions_invalid_model:
  "\<not> truthy (config_get r ''model'') \<Longrightarrow>
   chat_completions E cfg (Inr (JObj r)) = (invalid_request ''model is required'', [])"
  by (simp add: chat_completions_def chat_completions_try_def config_get_def)

lemma chat_completions_invalid_messages:
  "truthy (config_get r ''model'') \<Longrightarrow> \<not> truthy (config_get r ''messages'') \<Longrightarrow>
   chat_completions E cfg (Inr (JObj r)) = (invalid_request ''messages is required'', [])"
  by (simp add: chat_completions_def chat_completions_try_def config_get_def)

lemma chat_completions_forward:
  assumes "truthy (config_get r ''model'')" "truthy (config_get r ''messages'')"
    and "map_of cfg ''api_key'' = Some key" "map_of cfg ''endpoint'' = Some ep"
  shows "chat_completions E cfg (Inr (JObj r)) =
     (case send E (completion_call E cfg key ep (JObj r)) of
        Raises RequestsTimeout \<Rightarrow>
          (ErrorBody \<lparr>code = ''timeout'', message = JStr ''Request timeout'',
                       transient = True, details = None\<rparr>, 504)
      | Raises e \<Rightarrow> internal_error E e
      | Responds resp \<Rightarrow>
         (case handle_upstream E resp of
            Inr x \<Rightarrow> x
          | Inl RequestsTimeout \<Rightarrow>
              (ErrorBody \<lparr>code = ''timeout'', message = JStr ''Request timeout'',
                       transient = True, details = None\<rparr>, 504)
          | Inl e \<Rightarrow> internal_error E e),
      [completion_call E cfg key ep (JObj r)])"
  using assms
  by (auto simp: chat_completions_def chat_completions_try_def config_get_def Let_def
      split: net_outcome.splits py_exc.splits sum.splits)

lemma handle_upstream_error:
  "handle_upstream E resp = Inr (ErrorBody e, s) \<Longrightarrow>
   code e = classify (resp_status resp) \<and> transient e = (code e \<in> set transient_kinds)"
  by (auto simp: handle_upstream_def Let_def split: if_splits sum.splits)

lemma classify_not_invalid: "classify s \<noteq> ''invalid_request''"
  by (simp add: classify_def)

lemma example_call_eq:
  "completion_call (example_env out) initial_config (JStr [])
     (JStr ''https://api.openai.com/v1'') example_request = example_call"
  by (simp add: completion_call_def example_call_def initial_config_def)

lemma example_request_valid:
  "truthy (config_get [(''model'', JStr ''gpt-4''),
      (''messages'', JArr [JObj [(''role'', JStr ''user''), (''content'', JStr ''hi'')]])] ''model'') \<and>
   truthy (config_get [(''model'', JStr ''gpt-4''),
      (''messages'', JArr [JObj [(''role'', JStr ''user''), (''content'', JStr ''hi'')]])] ''messages'')"
  by (simp add: config_get_def)

lemma example_chat:
  "chat_completions (example_env out) initial_config (Inr example_request) =
     (case out of
        Raises RequestsTimeout \<Rightarrow>
          (ErrorBody \<lparr>code = ''timeout'', message = JStr ''Request timeout'',
                       transient = True, details = None\<rparr>, 504)
      | Raises e \<Rightarrow> internal_error (example_env out) e
      | Responds resp \<Rightarrow>
         (case handle_upstream (example_env out) resp of
            Inr x \<Rightarrow> x
          | Inl RequestsTimeout \<Rightarrow>
              (ErrorBody \<lparr>code = ''timeout'', message = JStr ''Request timeout'',
                       transient = True, details = None\<rparr>, 504)
          | Inl e \<Rightarrow> internal_error (example_env out) e),
      [example_call])"
proof -
  have s: "send (example_env out) c = out" for c
    by (simp add: example_env_def)
  show ?thesis
    unfolding example_request_def
    using chat_completions_forward [of _ initial_config "JStr []"
        "JStr ''https://api.openai.com/v1''" "example_env out",
        OF example_request_valid [THEN conjunct1] example_request_valid [THEN conjunct2]]
    by (simp add: initial_config_keys s example_call_eq [unfolded example_request_def])
qed

subsection \<open>Properties of the three handlers\<close>

text \<open>
  C1. The classifier is a total function of the status code: 401, 429 and 404 are
  matched exactly, every status from 500 on is \<open>provider_unavailable\<close>, and any other
  status except 200 is \<open>internal_error\<close>; the result is always one of the kinds of the
  closed taxonomy. The exact matches are tested before the range. Whenever the completion
  path answers an upstream response with a classified error, its code is the classifier's
  result for the upstream status.
\<close>

theorem classify_table:
  "classify 401 = ''authentication_failed'' \<and>
   classify 429 = ''rate_limit_exceeded'' \<and>
   classify 404 = ''model_not_found'' \<and>
   (\<forall>s. 500 \<le> s \<longrightarrow> classify s = ''provider_unavailable'') \<and>
   (\<forall>s. s \<noteq> 200 \<and> s \<noteq> 401 \<and> s \<noteq> 429 \<and> s \<noteq> 404 \<and> s < 500 \<longrightarrow> classify s = ''internal_error'') \<and>
   (\<forall>s. classify s \<in> set error_kinds) \<and>
   (\<forall>E resp e s. handle_upstream E resp = Inr (ErrorBody e, s) \<longrightarrow>
      code e = classify (resp_status resp))"
  using handle_upstream_error by (simp add: classify_def error_kinds_def)

theorem classify_table_witness:
  "(500::int) \<le> 503 \<and> classify 503 = ''provider_unavailable'' \<and>
   (418::int) \<noteq> 200 \<and> (418::int) < 500 \<and> classify 418 = ''internal_error'' \<and>
   classify 401 = ''authentication_failed''"
  using classify_table by simp

text \<open>
  C2. Every PluginError the adapter produces, from \<open>chat_completions\<close> or from
  \<open>initialize\<close>, has \<open>transient\<close> true exactly when its code is
  \<open>rate_limit_exceeded\<close>, \<open>provider_unavailable\<close> or \<open>timeout\<close>; an error whose code
  is \<open>authentication_failed\<close>, \<open>model_not_found\<close> or \<open>internal_error\<close> is therefore not
  transient, and the error of the \<open>requests.Timeout\<close> path has code \<open>timeout\<close> and is
  transient.
\<close>

theorem transient_iff_kind:
  "(\<forall>e s calls. chat_completions E cfg rq = ((ErrorBody e, s), calls) \<longrightarrow>
      (transient e \<longleftrightarrow>
         code e \<in> {''rate_limit_exceeded'', ''provider_unavailable'', ''timeout''})) \<and>
   (\<forall>e s cfg' calls. initialize E cfg rq = ((ErrorBody e, s), cfg', calls) \<longrightarrow>
      (transient e \<longleftrightarrow>
         code e \<in> {''rate_limit_exceeded'', ''provider_unavailable'', ''timeout''})) \<and>
   (\<forall>calls. chat_completions_try E cfg rq = (Inl RequestsTimeout, calls) \<longrightarrow>
      chat_completions E cfg rq =
        ((ErrorBody \<lparr>code = ''timeout'', message = JStr ''Request timeout'',
                      transient = True, details = None\<rparr>, 504), calls))"
proof (intro conjI allI impI)
  fix e s calls
  assume a: "chat_completions E cfg rq = ((ErrorBody e, s), calls)"
  have "transient e = (code e \<in> set transient_kinds)"
    using a
    by (auto simp: chat_completions_def chat_completions_try_def internal_error_def
          invalid_request_def transient_kinds_def Let_def
        dest: handle_upstream_error
        split: sum.splits if_splits option.splits net_outcome.splits py_exc.splits)
  then show "transient e \<longleftrightarrow>
      code e \<in> {''rate_limit_exceeded'', ''provider_unavailable'', ''timeout''}"
    by (simp add: transient_kinds_def)
next
  fix e s cfg' calls
  assume a: "initialize E cfg rq = ((ErrorBody e, s), cfg', calls)"
  show "transient e \<longleftrightarrow>
      code e \<in> {''rate_limit_exceeded'', ''provider_unavailable'', ''timeout''}"
    using a
    by (auto simp: initialize_def initialize_try_def internal_error_def invalid_request_def
          Let_def
        split: sum.splits if_splits json.splits)
next
  fix calls
  assume "chat_completions_try E cfg rq = (Inl RequestsTimeout, calls)"
  then show "chat_completions E cfg rq =
        ((ErrorBody \<lparr>code = ''timeout'', message = JStr ''Request timeout'',
                      transient = True, details = None\<rparr>, 504), calls)"
    by (simp add: chat_completions_def)
qed

theorem transient_iff_kind_witness:
  "chat_completions (example_env (Raises RequestsTimeout)) initial_config (Inr example_request) =
     ((ErrorBody \<lparr>code = ''timeout'', message = JStr ''Request timeout'',
                   transient = True, details = None\<rparr>, 504), [example_call]) \<and>
   (transient \<lparr>code = ''timeout'', message = JStr ''Request timeout'',
               transient = True, details = None\<rparr> \<longleftrightarrow>
    code \<lparr>code = ''timeout'', message = JStr ''Request timeout'',
          transient = True, details = None\<rparr>
      \<in> {''rate_limit_exceeded'', ''provider_unavailable'', ''timeout''})"
  using transient_iff_kind [of "example_env (Raises RequestsTimeout)" initial_config
      "Inr example_request"]
  by (simp add: example_chat)

text \<open>
  C5. For a request object, a missing or empty (more generally, falsy) \<open>model\<close> is
  answered 400 \<open>invalid_request\<close> "model is required"; with a truthy \<open>model\<close>, a
  missing or empty \<open>messages\<close> is answered 400 \<open>invalid_request\<close> "messages is
  required". The model is tested first, so a request lacking both reports the model. No
  upstream call is made in either case, and once both fields are truthy no response is an
  \<open>invalid_request\<close>, whatever the other fields are.
\<close>

theorem validation_model_first:
  "(map_of r ''model'' = None \<or> map_of r ''model'' = Some (JStr []) \<longrightarrow>
      \<not> truthy (config_get r ''model'')) \<and>
   (map_of r ''messages'' = None \<or> map_of r ''messages'' = Some (JArr []) \<longrightarrow>
      \<not> truthy (config_get r ''messages'')) \<and>
   (\<not> truthy (config_get r ''model'') \<longrightarrow>
      chat_completions E cfg (Inr (JObj r)) =
        ((ErrorBody \<lparr>code = ''invalid_request'', message = JStr ''model is required'',
                      transient = False, details = None\<rparr>, 400), [])) \<and>
   (truthy (config_get r ''model'') \<and> \<not> truthy (config_get r ''messages'') \<longrightarrow>
      chat_completions E cfg (Inr (JObj r)) =
        ((ErrorBody \<lparr>code = ''invalid_request'', message = JStr ''messages is required'',
                      transient = False, details = None\<rparr>, 400), [])) \<and>
   (truthy (config_get r ''model'') \<and> truthy (config_get r ''messages'') \<longrightarrow>
      (\<forall>e s calls. chat_completions E cfg (Inr (JObj r)) = ((ErrorBody e, s), calls) \<longrightarrow>
         code e \<noteq> ''invalid_request''))"
proof (intro conjI impI allI)
  assume "map_of r ''model'' = None \<or> map_of r ''model'' = Some (JStr [])"
  then show "\<not> truthy (config_get r ''model'')"
    by (auto simp: config_get_def)
next
  assume "map_of r ''messages'' = None \<or> map_of r ''messages'' = Some (JArr [])"
  then show "\<not> truthy (config_get r ''messages'')"
    by (auto simp: config_get_def)
next
  assume "\<not> truthy (config_get r ''model'')"
  then show "chat_completions E cfg (Inr (JObj r)) =
        ((ErrorBody \<lparr>code = ''invalid_request'', message = JStr ''model is required'',
                      transient = False, details = None\<rparr>, 400), [])"
    by (simp add: chat_completions_invalid_model invalid_request_def)
next
  assume "truthy (config_get r ''model'') \<and> \<not> truthy (config_get r ''messages'')"
  then show "chat_completions E cfg (Inr (JObj r)) =
        ((ErrorBody \<lparr>code = ''invalid_request'', message = JStr ''messages is required'',
                      transient = False, details = None\<rparr>, 400), [])"
    by (simp add: chat_completions_invalid_messages invalid_request_def)
next
  fix e s calls
  assume v: "truthy (config_get r ''model'') \<and> truthy (config_get r ''messages'')"
    and a: "chat_completions E cfg (Inr (JObj r)) = ((ErrorBody e, s), calls)"
  show "code e \<noteq> ''invalid_request''"
    using v a
    by (auto simp: chat_completions_def chat_completions_try_def internal_error_def
          config_get_def Let_def classify_not_invalid classify_not_invalid [symmetric]
        dest!: handle_upstream_error
        split: sum.splits option.splits net_outcome.splits py_exc.splits)
qed

theorem validation_model_first_witness:
  "map_of [(''temperature'', JInt 1)] ''model'' = None \<and>
   \<not> truthy (config_get [(''temperature'', JInt 1)] ''model'') \<and>
   chat_completions (example_env (Raises RequestsTimeout)) initial_config
       (Inr (JObj [(''temperature'', JInt 1)])) =
     ((ErrorBody \<lparr>code = ''invalid_request'', message = JStr ''model is required'',
                   transient = False, details = None\<rparr>, 400), []) \<and>
   truthy (config_get [(''model'', JStr ''m'')] ''model'') \<and>
   map_of [(''model'', JStr ''m'')] ''messages'' = None \<and>
   chat_completions (example_env (Raises RequestsTimeout)) initial_config
       (Inr (JObj [(''model'', JStr ''m'')])) =
     ((ErrorBody \<lparr>code = ''invalid_request'', message = JStr ''messages is required'',
                   transient = False, details = None\<rparr>, 400), [])"
  using validation_model_first [of "[(''temperature'', JInt 1)]"
      "example_env (Raises RequestsTimeout)" initial_config]
    validation_model_first [of "[(''model'', JStr ''m'')]"
      "example_env (Raises RequestsTimeout)" initial_config]
  by (simp add: config_get_def)

text \<open>
  C6. While the stored \<open>api_key\<close> is falsy (\<open>is_initialized\<close> is false), the health check
  answers \<open>healthy = False\<close>, message "Not initialized", \<open>latency_ms = 0\<close>, and makes no
  upstream call.
\<close>

theorem health_uninitialized:
  "\<not> is_initialized cfg \<Longrightarrow>
   health_check E cfg =
     ((HealthBody \<lparr>healthy = False, health_message = ''Not initialized'', latency_ms = 0,
                   timestamp = now_iso E, health_details = None\<rparr>, 200), [])"
  by (simp add: health_check_def health_check_try_def is_initialized_def)

theorem health_uninitialized_witness:
  "\<not> is_initialized initial_config \<and>
   health_check (example_env (Raises RequestsTimeout)) initial_config =
     ((HealthBody \<lparr>healthy = False, health_message = ''Not initialized'', latency_ms = 0,
                   timestamp = ''2024-01-01T00:00:00'', health_details = None\<rparr>, 200), [])"
proof -
  have u: "\<not> is_initialized initial_config"
    by (simp add: is_initialized_def config_get_def initial_config_def)
  show ?thesis
    using u health_uninitialized [OF u, of "example_env (Raises RequestsTimeout)"]
    by (simp add: example_env_def)
qed

text \<open>
  C7. The health check always answers 200 with a health report, never a PluginError:
  whether the provider answers 200 or another status, the request times out, or
  anything else fails. The report is healthy exactly when the adapter is initialized and
  the provider answered 200.
\<close>

theorem health_never_errors:
  "\<exists>rep calls. health_check E cfg = ((HealthBody rep, 200), calls) \<and>
     (healthy rep \<longleftrightarrow>
        is_initialized cfg \<and>
        (\<exists>ep resp. map_of cfg ''endpoint'' = Some ep \<and>
           send E (models_call E ep (config_get cfg ''api_key'')) = Responds resp \<and>
           resp_status resp = 200))"
  by (auto simp: health_check_cases unhealthy_def
      split: option.splits net_outcome.splits py_exc.splits)

text \<open>
  C10. \<open>initialize\<close> only tests that the key \<open>api_key\<close> is in the mapping. With
  \<open>{"api_key": ""}\<close> it answers 200 with an empty object and stores the empty string,
  and the adapter is still not initialized afterwards.
\<close>

theorem initialize_empty_key:
  "fst (initialize E cfg (Inr (JObj [(''api_key'', JStr [])]))) = (JsonBody (JObj []), 200) \<and>
   map_of (fst (snd (initialize E cfg (Inr (JObj [(''api_key'', JStr [])]))))) ''api_key''
     = Some (JStr []) \<and>
   \<not> is_initialized (fst (snd (initialize E cfg (Inr (JObj [(''api_key'', JStr [])])))))"
  by (simp add: initialize_object is_initialized_def config_get_def map_of_dict_update)

text \<open>
  C8. \<open>chat_completions\<close> has no initialization test. A request that passes validation is
  forwarded although the adapter is not initialized: exactly one upstream call is made,
  its bearer credential is formatted from the stored \<open>api_key\<close> (the bare prefix
  \<open>Bearer\<close> and a space for the empty key), and the answer is the classified upstream
  answer, for instance \<open>authentication_failed\<close> with status 401 when the provider
  rejects the credential.
\<close>

theorem completion_not_gated:
  assumes "truthy (config_get r ''model'')" and "truthy (config_get r ''messages'')"
    and "\<not> is_initialized cfg"
    and "map_of cfg ''api_key'' = Some key" and "map_of cfg ''endpoint'' = Some ep"
  shows "snd (chat_completions E cfg (Inr (JObj r))) = [completion_call E cfg key ep (JObj r)] \<and>
    call_authorization (completion_call E cfg key ep (JObj r)) = ''Bearer '' @ py_fstr E key \<and>
    (key = JStr [] \<longrightarrow>
       call_authorization (completion_call E cfg key ep (JObj r)) = ''Bearer '') \<and>
    (\<forall>resp. send E (completion_call E cfg key ep (JObj r)) = Responds resp \<and>
        resp_status resp = 401 \<and> resp_content_type resp \<noteq> Some ''application/json'' \<longrightarrow>
        fst (chat_completions E cfg (Inr (JObj r))) =
          (ErrorBody \<lparr>code = ''authentication_failed'', message = JStr (resp_text resp),
                      transient = False, details = Some (401, elapsed_ms E)\<rparr>, 401))"
proof (intro conjI allI impI)
  show "snd (chat_completions E cfg (Inr (JObj r))) = [completion_call E cfg key ep (JObj r)]"
    by (simp add: chat_completions_forward [OF assms(1,2,4,5)])
  show "call_authorization (completion_call E cfg key ep (JObj r)) = ''Bearer '' @ py_fstr E key"
    by (simp add: completion_call_def)
  show "call_authorization (completion_call E cfg key ep (JObj r)) = ''Bearer ''"
    if "key = JStr []"
    using that by (simp add: completion_call_def)
next
  fix resp
  assume a: "send E (completion_call E cfg key ep (JObj r)) = Responds resp \<and>
        resp_status resp = 401 \<and> resp_content_type resp \<noteq> Some ''application/json''"
  have "handle_upstream E resp =
      Inr (ErrorBody \<lparr>code = ''authentication_failed'', message = JStr (resp_text resp),
                      transient = False, details = Some (401, elapsed_ms E)\<rparr>, 401)"
    using a by (simp add: handle_upstream_def classify_def transient_kinds_def)
  then show "fst (chat_completions E cfg (Inr (JObj r))) =
          (ErrorBody \<lparr>code = ''authentication_failed'', message = JStr (resp_text resp),
                      transient = False, details = Some (401, elapsed_ms E)\<rparr>, 401)"
    using a by (simp add: chat_completions_forward [OF assms(1,2,4,5)])
qed

theorem completion_not_gated_witness:
  "truthy (config_get [(''model'', JStr ''gpt-4''), (''messages'', JArr [JStr ''hi''])] ''model'') \<and>
   truthy (config_get [(''model'', JStr ''gpt-4''), (''messages'', JArr [JStr ''hi''])] ''messages'') \<and>
   \<not> is_initialized initial_config \<and>
   map_of initial_config ''api_key'' = Some (JStr []) \<and>
   map_of initial_config ''endpoint'' = Some (JStr ''https://api.openai.com/v1'') \<and>
   fst (chat_completions
         (example_env (Responds \<lparr>resp_status = 401, resp_content_type = Some ''text/plain'',
                                 resp_text = ''missing bearer token'',
                                 resp_json = Inl JSONDecodeError\<rparr>))
         initial_config
         (Inr (JObj [(''model'', JStr ''gpt-4''), (''messages'', JArr [JStr ''hi''])]))) =
     (ErrorBody \<lparr>code = ''authentication_failed'', message = JStr ''missing bearer token'',
                 transient = False, details = Some (401, 12)\<rparr>, 401)"
proof -
  let ?r = "[(''model'', JStr ''gpt-4''), (''messages'', JArr [JStr ''hi''])]"
  let ?E = "example_env (Responds \<lparr>resp_status = 401, resp_content_type = Some ''text/plain'',
                                 resp_text = ''missing bearer token'',
                                 resp_json = Inl JSONDecodeError\<rparr>)"
  have h1: "truthy (config_get ?r ''model'')" by (simp add: config_get_def)
  have h2: "truthy (config_get ?r ''messages'')" by (simp add: config_get_def)
  have h3: "\<not> is_initialized initial_config"
    by (simp add: is_initialized_def config_get_def initial_config_def)
  have h4: "map_of initial_config ''api_key'' = Some (JStr [])"
    by (simp add: initial_config_def)
  have h5: "map_of initial_config ''endpoint'' = Some (JStr ''https://api.openai.com/v1'')"
    by (simp add: initial_config_def)
  show ?thesis
    using h1 h2 h3 h4 h5 completion_not_gated [OF h1 h2 h3 h4 h5, of ?E]
    by (simp add: example_env_def)
qed

text \<open>
  C9. A successful \<open>initialize\<close> (status 200) stores the merge of the supplied
  fields over the prior configuration: a supplied key has the supplied value, any other key
  keeps its prior value. The response and the stored configuration are the same for every
  environment, hence for every outcome of the connectivity probe.
\<close>

theorem initialize_merge:
  assumes "initialize E cfg rq = ((b, 200), cfg', calls)"
  shows "\<exists>flds. rq = Inr (JObj flds) \<and> ''api_key'' \<in> fst ` set flds \<and>
      b = JsonBody (JObj []) \<and> cfg' = dict_update cfg flds \<and>
      (distinct (map fst flds) \<longrightarrow> (\<forall>k v. (k, v) \<in> set flds \<longrightarrow> map_of cfg' k = Some v)) \<and>
      (\<forall>k. k \<notin> fst ` set flds \<longrightarrow> map_of cfg' k = map_of cfg k) \<and>
      (\<forall>E'. fst (initialize E' cfg rq) = (b, 200) \<and> fst (snd (initialize E' cfg rq)) = cfg')"
proof -
  from initialize_success [OF assms] obtain flds where
    f: "rq = Inr (JObj flds)" "''api_key'' \<in> fst ` set flds" "b = JsonBody (JObj [])"
       "cfg' = dict_update cfg flds"
    by blast
  have "\<forall>k v. (k, v) \<in> set flds \<longrightarrow> map_of cfg' k = Some v" if "distinct (map fst flds)"
    using that f(4) by (simp add: dict_update_supplied)
  moreover have "\<forall>k. k \<notin> fst ` set flds \<longrightarrow> map_of cfg' k = map_of cfg k"
    using f(4) by (simp add: dict_update_absent)
  moreover have "\<forall>E'. fst (initialize E' cfg rq) = (b, 200) \<and> fst (snd (initialize E' cfg rq)) = cfg'"
    using f by (simp add: initialize_object)
  ultimately show ?thesis
    using f by blast
qed

theorem initialize_merge_witness:
  "initialize (example_env (Raises RequestsTimeout)) initial_config
      (Inr (JObj [(''api_key'', JStr ''k'')])) =
     ((JsonBody (JObj []), 200),
      [(''api_key'', JStr ''k''), (''endpoint'', JStr ''https://api.openai.com/v1''),
       (''timeout'', JInt 30)],
      probe_calls (example_env (Raises RequestsTimeout))
        [(''api_key'', JStr ''k''), (''endpoint'', JStr ''https://api.openai.com/v1''),
         (''timeout'', JInt 30)]) \<and>
   (\<exists>flds. Inr (JObj [(''api_key'', JStr ''k'')]) = (Inr (JObj flds) :: py_exc + json) \<and>
      [(''api_key'', JStr ''k''), (''endpoint'', JStr ''https://api.openai.com/v1''),
       (''timeout'', JInt 30)] = dict_update initial_config flds \<and>
      (\<forall>k. k \<notin> fst ` set flds \<longrightarrow>
         map_of [(''api_key'', JStr ''k''), (''endpoint'', JStr ''https://api.openai.com/v1''),
                 (''timeout'', JInt 30)] k = map_of initial_config k))"
proof -
  have h: "initialize (example_env (Raises RequestsTimeout)) initial_config
      (Inr (JObj [(''api_key'', JStr ''k'')])) =
     ((JsonBody (JObj []), 200),
      [(''api_key'', JStr ''k''), (''endpoint'', JStr ''https://api.openai.com/v1''),
       (''timeout'', JInt 30)],
      probe_calls (example_env (Raises RequestsTimeout))
        [(''api_key'', JStr ''k''), (''endpoint'', JStr ''https://api.openai.com/v1''),
         (''timeout'', JInt 30)])"
    by (simp add: initialize_object dict_update_def initial_config_def)
  show ?thesis
    using h initialize_merge [OF h] by blast
qed

text \<open>
  C3, as the code has it. For a valid request whose upstream call answers a status other
  than 200, when the response either lacks the content type \<open>application/json\<close> (compared
  as an exact string) or has a body that parses to a JSON object whose \<open>error\<close> entry is
  missing or an object: the answer is a PluginError whose code is the classifier's, whose
  message is the nested \<open>error.message\<close> when the content type is \<open>application/json\<close> and
  the field is present and the raw response text otherwise, whose details are the
  upstream status and the measured latency, and whose HTTP status is the upstream status.
\<close>

theorem upstream_error_mapped:
  assumes "truthy (config_get r ''model'')" and "truthy (config_get r ''messages'')"
    and "map_of cfg ''api_key'' = Some key" and "map_of cfg ''endpoint'' = Some ep"
    and "send E (completion_call E cfg key ep (JObj r)) = Responds resp"
    and "resp_status resp \<noteq> 200"
    and "resp_content_type resp = Some ''application/json'' \<longrightarrow>
           (\<exists>b. resp_json resp = Inr (JObj b) \<and>
              (map_of b ''error'' = None \<or> (\<exists>eo. map_of b ''error'' = Some (JObj eo))))"
  shows "chat_completions E cfg (Inr (JObj r)) =
     ((ErrorBody
         \<lparr>code = classify (resp_status resp),
          message =
            (if resp_content_type resp = Some ''application/json''
             then (case nested_error_message resp of
                     Some m \<Rightarrow> m
                   | None \<Rightarrow> JStr (resp_text resp))
             else JStr (resp_text resp)),
          transient = (classify (resp_status resp)
             \<in> {''rate_limit_exceeded'', ''provider_unavailable'', ''timeout''}),
          details = Some (resp_status resp, elapsed_ms E)\<rparr>,
       resp_status resp),
      [completion_call E cfg key ep (JObj r)])"
proof -
  have "handle_upstream E resp =
     Inr (ErrorBody
         \<lparr>code = classify (resp_status resp),
          message =
            (if resp_content_type resp = Some ''application/json''
             then (case nested_error_message resp of
                     Some m \<Rightarrow> m
                   | None \<Rightarrow> JStr (resp_text resp))
             else JStr (resp_text resp)),
          transient = (classify (resp_status resp)
             \<in> {''rate_limit_exceeded'', ''provider_unavailable'', ''timeout''}),
          details = Some (resp_status resp, elapsed_ms E)\<rparr>,
       resp_status resp)"
    using assms(6,7)
    by (auto simp: handle_upstream_def nested_error_message_def transient_kinds_def Let_def
        split: option.splits)
  then show ?thesis
    using assms(5) by (simp add: chat_completions_forward [OF assms(1,2,3,4)])
qed

theorem upstream_error_mapped_witness:
  \<open>truthy (config_get [(''model'', JStr ''gpt-4''), (''messages'', JArr [JStr ''hi''])] ''model'') \<and>
   truthy (config_get [(''model'', JStr ''gpt-4''), (''messages'', JArr [JStr ''hi''])] ''messages'') \<and>
   (429::int) \<noteq> 200 \<and>
   chat_completions
       (example_env (Responds \<lparr>resp_status = 429, resp_content_type = Some ''application/json'',
          resp_text = ''{"error":{"message":"slow down"}}'',
          resp_json = Inr (JObj [(''error'', JObj [(''message'', JStr ''slow down'')])])\<rparr>))
       initial_config
       (Inr (JObj [(''model'', JStr ''gpt-4''), (''messages'', JArr [JStr ''hi''])])) =
     ((ErrorBody \<lparr>code = ''rate_limit_exceeded'', message = JStr ''slow down'',
                   transient = True, details = Some (429, 12)\<rparr>, 429),
      [completion_call
         (example_env (Responds \<lparr>resp_status = 429, resp_content_type = Some ''application/json'',
            resp_text = ''{"error":{"message":"slow down"}}'',
            resp_json = Inr (JObj [(''error'', JObj [(''message'', JStr ''slow down'')])])\<rparr>))
         initial_config (JStr []) (JStr ''https://api.openai.com/v1'')
         (JObj [(''model'', JStr ''gpt-4''), (''messages'', JArr [JStr ''hi''])])])\<close>
proof -
  let ?r = "[(''model'', JStr ''gpt-4''), (''messages'', JArr [JStr ''hi''])]"
  let ?resp = \<open>\<lparr>resp_status = 429, resp_content_type = Some ''application/json'',
          resp_text = ''{"error":{"message":"slow down"}}'',
          resp_json = Inr (JObj [(''error'', JObj [(''message'', JStr ''slow down'')])])\<rparr>\<close>
  let ?E = "example_env (Responds ?resp)"
  have h1: "truthy (config_get ?r ''model'')" by (simp add: config_get_def)
  have h2: "truthy (config_get ?r ''messages'')" by (simp add: config_get_def)
  have h3: "map_of initial_config ''api_key'' = Some (JStr [])"
    by (simp add: initial_config_def)
  have h4: "map_of initial_config ''endpoint'' = Some (JStr ''https://api.openai.com/v1'')"
    by (simp add: initial_config_def)
  have h5: "send ?E (completion_call ?E initial_config (JStr [])
      (JStr ''https://api.openai.com/v1'') (JObj ?r)) = Responds ?resp"
    by (simp add: example_env_def)
  have h6: "resp_status ?resp \<noteq> 200" by simp
  have h7: "resp_content_type ?resp = Some ''application/json'' \<longrightarrow>
           (\<exists>b. resp_json ?resp = Inr (JObj b) \<and>
              (map_of b ''error'' = None \<or> (\<exists>eo. map_of b ''error'' = Some (JObj eo))))"
    by simp
  show ?thesis
    using h1 h2 upstream_error_mapped [OF h1 h2 h3 h4 h5 h6 h7]
    by (simp add: classify_def nested_error_message_def example_env_def)
qed

text \<open>
  C3 as stated fails on two upstream answers with status 429. With the content type
  \<open>application/json; charset=utf-8\<close> and the body \<open>{"error":{"message":"slow down"}}\<close> the
  message is the raw response text, not the nested field. With the content type
  \<open>application/json\<close> and the body \<open>{"error":"slow down"}\<close>, \<open>.get\<close> is called on a
  string and the answer is 500 \<open>internal_error\<close>, not 429 \<open>rate_limit_exceeded\<close>.
\<close>

theorem upstream_error_counterexample:
  \<open>chat_completions
       (example_env (Responds \<lparr>resp_status = 429,
          resp_content_type = Some ''application/json; charset=utf-8'',
          resp_text = ''{"error":{"message":"slow down"}}'',
          resp_json = Inr (JObj [(''error'', JObj [(''message'', JStr ''slow down'')])])\<rparr>))
       initial_config (Inr example_request) =
     ((ErrorBody \<lparr>code = ''rate_limit_exceeded'',
                   message = JStr ''{"error":{"message":"slow down"}}'',
                   transient = True, details = Some (429, 12)\<rparr>, 429), [example_call]) \<and>
   chat_completions
       (example_env (Responds \<lparr>resp_status = 429,
          resp_content_type = Some ''application/json'',
          resp_text = ''{"error":"slow down"}'',
          resp_json = Inr (JObj [(''error'', JStr ''slow down'')])\<rparr>))
       initial_config (Inr example_request) =
     ((ErrorBody \<lparr>code = ''internal_error'', message = JStr ''error'',
                   transient = False, details = None\<rparr>, 500), [example_call])\<close>
  unfolding example_chat
  by (simp add: handle_upstream_def classify_def transient_kinds_def internal_error_def
        example_env_def)

subsection \<open>Evaluating the float operations\<close>

lemma bit_length_numeral:
  "bit_length 0 = 0"
  "bit_length 1 = 1"
  "bit_length (numeral (num.Bit0 k)) = Suc (bit_length (numeral k))"
  "bit_length (numeral (num.Bit1 k)) = Suc (bit_length (numeral k))"
  "bit_length (- numeral k) = 0"
  by (subst bit_length.simps, simp)+

text \<open>
  The bit length brackets a positive integer between two powers of two, so
  \<open>floor_log2\<close> is the binary exponent of a real from 1 on.
\<close>

lemma bit_length_bounds:
  "0 < n \<Longrightarrow> 2 ^ (bit_length n - 1) \<le> n \<and> n < 2 ^ bit_length n"
proof (induction n rule: bit_length.induct)
  case (1 n)
  show ?case
  proof (cases "n = 1")
    case True
    then show ?thesis by (simp add: bit_length_numeral)
  next
    case False
    with "1.prems" have h: "0 < n div 2" by simp
    have ih: "2 ^ (bit_length (n div 2) - 1) \<le> n div 2 \<and> n div 2 < 2 ^ bit_length (n div 2)"
      using "1.IH" "1.prems" h by simp
    have pos: "0 < bit_length (n div 2)"
      using h by (subst bit_length.simps) simp
    have b: "bit_length n = Suc (bit_length (n div 2))"
      using "1.prems" by (subst bit_length.simps) simp
    have p: "(2::int) ^ bit_length (n div 2) = 2 * 2 ^ (bit_length (n div 2) - 1)"
      using pos by (cases "bit_length (n div 2)") simp_all
    show ?thesis
      using ih by (simp add: b p) presburger
  qed
qed

lemma floor_log2_bounds:
  assumes "1 \<le> a"
  shows "pow2 (floor_log2 a) \<le> a \<and> a < pow2 (floor_log2 a + 1)"
proof -
  let ?n = "\<lfloor>a\<rfloor>"
  have n: "0 < ?n" using assms by simp
  have bl: "0 < bit_length ?n" using n by (subst bit_length.simps) simp
  from bit_length_bounds [OF n]
  have lo: "2 ^ (bit_length ?n - 1) \<le> ?n" and hi: "?n < 2 ^ bit_length ?n" by simp_all
  have e: "floor_log2 a = int (bit_length ?n) - 1"
    using assms by (simp add: floor_log2_def)
  have "real_of_int (2 ^ (bit_length ?n - 1)) \<le> real_of_int ?n"
    using lo by (rule of_int_le_iff [THEN iffD2])
  then have l: "2 ^ (bit_length ?n - 1) \<le> a"
    by (simp add: le_floor_iff)
  have "?n + 1 \<le> 2 ^ bit_length ?n" using hi by simp
  then have "real_of_int (?n + 1) \<le> real_of_int (2 ^ bit_length ?n)"
    by (rule of_int_le_iff [THEN iffD2])
  then have c1: "real_of_int ?n + 1 \<le> 2 ^ bit_length ?n" by simp
  have c2: "a < real_of_int ?n + 1" by linarith
  have h: "a < 2 ^ bit_length ?n" using c1 c2 by linarith
  have n1: "nat (int (bit_length ?n) - 1) = bit_length ?n - 1" by simp
  show ?thesis
    using l h bl by (simp add: e pow2_def n1)
qed

lemma round_double_pos:
  assumes "0 < r" and "floor_log2 r = e" and "- 1022 \<le> e"
    and "round_half_even (r / pow2 (e - 52)) = q" and "0 < q"
    and "of_int q * pow2 (e - 52) < pow2 1024"
  shows "round_double r = Finite (of_int q * pow2 (e - 52))"
proof -
  have a: "\<bar>r\<bar> = r" using assms(1) by simp
  have m: "max e (- 1022) = e" using assms(3) by simp
  have nz: "of_int q * pow2 (e - 52) \<noteq> 0"
    using assms(5) by (simp add: pow2_def)
  show ?thesis
    unfolding round_double_def Let_def a assms(2) m assms(4)
    using assms(1,6) nz by simp
qed

lemma cost_per_token_value: "cost_per_token = Finite (8854437155380585 / 2 ^ 68)"
proof -
  have fl: "floor_log2 (3 / 100000) = - 16"
    by (simp add: floor_log2_def bit_length_numeral)
  have rh: "round_half_even (3 / 100000 / pow2 (- 16 - 52)) = 8854437155380585"
    by (simp add: round_half_even_def pow2_def Let_def)
  have "round_double (3 / 100000) = Finite (of_int 8854437155380585 * pow2 (- 16 - 52))"
    by (rule round_double_pos [OF _ fl _ rh]) (simp_all add: pow2_def)
  then show ?thesis
    by (simp add: cost_per_token_def pow2_def)
qed

lemma float_of_int_1000: "float_of_int 1000 = Inr (Finite 1000)"
proof -
  have fl: "floor_log2 1000 = 9"
    by (simp add: floor_log2_def bit_length_numeral)
  have rh: "round_half_even (1000 / pow2 (9 - 52)) = 8796093022208000"
    by (simp add: round_half_even_def pow2_def Let_def)
  have "round_double 1000 = Finite (of_int 8796093022208000 * pow2 (9 - 52))"
    by (rule round_double_pos [OF _ fl _ rh]) (simp_all add: pow2_def)
  then show ?thesis
    by (simp add: float_of_int_def pow2_def)
qed

lemma cost_of_1000_tokens:
  "float_mul (Finite 1000) cost_per_token = Finite (8646911284551353 / 2 ^ 58)"
proof -
  have fl: "floor_log2 (1000 * (8854437155380585 / 2 ^ 68)) = - 6"
    by (simp add: floor_log2_def bit_length_numeral)
  have rh: "round_half_even (1000 * (8854437155380585 / 2 ^ 68) / pow2 (- 6 - 52))
      = 8646911284551353"
    by (simp add: round_half_even_def pow2_def Let_def)
  have "round_double (1000 * (8854437155380585 / 2 ^ 68))
      = Finite (of_int 8646911284551353 * pow2 (- 6 - 52))"
    by (rule round_double_pos [OF _ fl _ rh]) (simp_all add: pow2_def)
  then show ?thesis
    by (simp add: float_mul_def cost_per_token_value float_is_zero_def float_is_inf_def
          pow2_def)
qed

lemma round_double_overflow:
  assumes "0 < r" and "floor_log2 r = e" and "- 1022 \<le> e"
    and "round_half_even (r / pow2 (e - 52)) = q"
    and "pow2 1024 \<le> of_int q * pow2 (e - 52)"
  shows "round_double r = PosInf"
proof -
  have a: "\<bar>r\<bar> = r" using assms(1) by simp
  have m: "max e (- 1022) = e" using assms(3) by simp
  show ?thesis
    unfolding round_double_def Let_def a assms(2) m assms(4)
    using assms(1,5) by simp
qed

lemma float_of_int_overflow: "float_of_int (2 ^ 1024) = Inl OverflowError"
proof -
  have fl: "floor_log2 (2 ^ 1024) = 1024"
    by (simp add: floor_log2_def bit_length_numeral)
  have rh: "round_half_even (2 ^ 1024 / pow2 (1024 - 52)) = 2 ^ 52"
    by (simp add: round_half_even_def pow2_def Let_def)
  have "round_double (2 ^ 1024) = PosInf"
    by (rule round_double_overflow [OF _ fl _ rh]) (simp_all add: pow2_def)
  then show ?thesis
    by (simp add: float_of_int_def)
qed

subsection \<open>Cost augmentation\<close>

lemma in_keys_iff: "(k \<in> fst ` set kvs) = (map_of kvs k \<noteq> None)"
  by (simp add: map_of_eq_None_iff)

lemma add_cost_no_usage:
  "map_of kvs ''usage'' = None \<Longrightarrow> add_cost (JObj kvs) = Inr (JObj kvs)"
  by (simp add: add_cost_def in_keys_iff)

lemma add_cost_no_total:
  "map_of kvs ''usage'' = Some (JObj u) \<Longrightarrow> map_of u ''total_tokens'' = None \<Longrightarrow>
   add_cost (JObj kvs) = Inr (JObj kvs)"
  by (simp add: add_cost_def in_keys_iff)

lemma add_cost_total:
  "map_of kvs ''usage'' = Some (JObj u) \<Longrightarrow> map_of u ''total_tokens'' = Some (JInt n) \<Longrightarrow>
   float_of_int n = Inr x \<Longrightarrow>
   add_cost (JObj kvs) =
     Inr (JObj (dict_set ''usage''
            (JObj (dict_set ''cost_usd'' (JFloat (float_mul x cost_per_token)) u)) kvs))"
  by (simp add: add_cost_def in_keys_iff)

text \<open>
  C4, as the code has it. For a valid request whose upstream call answers 200 with a body
  that parses to a JSON object: when the object has no \<open>usage\<close>, or \<open>usage\<close> is an object
  without \<open>total_tokens\<close>, the body is returned unchanged; when \<open>usage\<close> is an object
  whose \<open>total_tokens\<close> is an integer that converts to a double, \<open>usage.cost_usd\<close> is
  set to the float product of the token count and the constant \<open>0.00003\<close>, and nothing
  else changes.
\<close>

theorem cost_augmentation:
  assumes "truthy (config_get r ''model'')" and "truthy (config_get r ''messages'')"
    and "map_of cfg ''api_key'' = Some key" and "map_of cfg ''endpoint'' = Some ep"
    and "send E (completion_call E cfg key ep (JObj r)) = Responds resp"
    and "resp_status resp = 200" and "resp_json resp = Inr (JObj kvs)"
  shows "(map_of kvs ''usage'' = None \<longrightarrow>
            chat_completions E cfg (Inr (JObj r)) =
              ((JsonBody (JObj kvs), 200), [completion_call E cfg key ep (JObj r)])) \<and>
         (\<forall>u. map_of kvs ''usage'' = Some (JObj u) \<and> map_of u ''total_tokens'' = None \<longrightarrow>
            chat_completions E cfg (Inr (JObj r)) =
              ((JsonBody (JObj kvs), 200), [completion_call E cfg key ep (JObj r)])) \<and>
         (\<forall>u n x. map_of kvs ''usage'' = Some (JObj u) \<and>
              map_of u ''total_tokens'' = Some (JInt n) \<and> float_of_int n = Inr x \<longrightarrow>
            chat_completions E cfg (Inr (JObj r)) =
              ((JsonBody (JObj (dict_set ''usage''
                   (JObj (dict_set ''cost_usd'' (JFloat (float_mul x cost_per_token)) u))
                   kvs)), 200),
               [completion_call E cfg key ep (JObj r)]))"
proof -
  have fw: "chat_completions E cfg (Inr (JObj r)) =
      ((case add_cost (JObj kvs) of
          Inl RequestsTimeout \<Rightarrow>
            (ErrorBody \<lparr>code = ''timeout'', message = JStr ''Request timeout'',
                         transient = True, details = None\<rparr>, 504)
        | Inl e \<Rightarrow> internal_error E e
        | Inr x \<Rightarrow> (JsonBody x, 200)),
       [completion_call E cfg key ep (JObj r)])"
    using assms(5,6,7)
    by (simp add: chat_completions_forward [OF assms(1,2,3,4)] handle_upstream_def
        split: sum.splits py_exc.splits)
  show ?thesis
    by (simp add: fw add_cost_no_usage add_cost_no_total add_cost_total)
qed

theorem cost_augmentation_witness:
  \<open>chat_completions
       (example_env (Responds \<lparr>resp_status = 200, resp_content_type = Some ''application/json'',
          resp_text = ''{"usage":{"total_tokens":1000}}'',
          resp_json = Inr (JObj [(''usage'', JObj [(''total_tokens'', JInt 1000)])])\<rparr>))
       initial_config
       (Inr (JObj [(''model'', JStr ''gpt-4''), (''messages'', JArr [JStr ''hi''])])) =
     ((JsonBody (JObj [(''usage'', JObj [(''total_tokens'', JInt 1000),
          (''cost_usd'', JFloat (Finite (8646911284551353 / 2 ^ 58)))])]), 200),
      [completion_call
         (example_env (Responds \<lparr>resp_status = 200, resp_content_type = Some ''application/json'',
            resp_text = ''{"usage":{"total_tokens":1000}}'',
            resp_json = Inr (JObj [(''usage'', JObj [(''total_tokens'', JInt 1000)])])\<rparr>))
         initial_config (JStr []) (JStr ''https://api.openai.com/v1'')
         (JObj [(''model'', JStr ''gpt-4''), (''messages'', JArr [JStr ''hi''])])]) \<and>
   \<bar>8646911284551353 / 2 ^ 58 - 3 / 100\<bar> < (1 / 10 ^ 17 :: real)\<close>
proof -
  let ?r = "[(''model'', JStr ''gpt-4''), (''messages'', JArr [JStr ''hi''])]"
  let ?kvs = "[(''usage'', JObj [(''total_tokens'', JInt 1000)])]"
  let ?resp = \<open>\<lparr>resp_status = 200, resp_content_type = Some ''application/json'',
          resp_text = ''{"usage":{"total_tokens":1000}}'',
          resp_json = Inr (JObj ?kvs)\<rparr>\<close>
  let ?E = "example_env (Responds ?resp)"
  have h1: "truthy (config_get ?r ''model'')" by (simp add: config_get_def)
  have h2: "truthy (config_get ?r ''messages'')" by (simp add: config_get_def)
  have h3: "map_of initial_config ''api_key'' = Some (JStr [])"
    by (simp add: initial_config_def)
  have h4: "map_of initial_config ''endpoint'' = Some (JStr ''https://api.openai.com/v1'')"
    by (simp add: initial_config_def)
  have h5: "send ?E (completion_call ?E initial_config (JStr [])
      (JStr ''https://api.openai.com/v1'') (JObj ?r)) = Responds ?resp"
    by (simp add: example_env_def)
  have h6: "resp_status ?resp = 200" by simp
  have h7: "resp_json ?resp = Inr (JObj ?kvs)" by simp
  have u: "map_of ?kvs ''usage'' = Some (JObj [(''total_tokens'', JInt 1000)]) \<and>
      map_of [(''total_tokens'', JInt 1000)] ''total_tokens'' = Some (JInt 1000) \<and>
      float_of_int 1000 = Inr (Finite 1000)"
    by (simp add: float_of_int_1000)
  have c: "chat_completions ?E initial_config (Inr (JObj ?r)) =
      ((JsonBody (JObj (dict_set ''usage''
           (JObj (dict_set ''cost_usd'' (JFloat (float_mul (Finite 1000) cost_per_token))
              [(''total_tokens'', JInt 1000)])) ?kvs)), 200),
       [completion_call ?E initial_config (JStr []) (JStr ''https://api.openai.com/v1'')
          (JObj ?r)])"
    using cost_augmentation [OF h1 h2 h3 h4 h5 h6 h7] u by blast
  have t: "\<bar>8646911284551353 / 2 ^ 58 - 3 / 100\<bar> < (1 / 10 ^ 17 :: real)" by simp
  show ?thesis
    using c t by (simp add: cost_of_1000_tokens)
qed

text \<open>
  C4 as stated fails on two upstream answers with status 200. For the body
  \<open>{"usage": null}\<close>, which has no \<open>usage.total_tokens\<close>, the membership test on \<open>None\<close>
  raises and the answer is 500 \<open>internal_error\<close> instead of the unchanged body. For a
  body whose \<open>usage.total_tokens\<close> is the integer \<open>2 ^ 1024\<close>, the conversion to a float
  raises \<open>OverflowError\<close> and the answer is 500 \<open>internal_error\<close> instead of a body with
  \<open>cost_usd\<close>.
\<close>

theorem cost_augmentation_counterexample:
  \<open>chat_completions
       (example_env (Responds \<lparr>resp_status = 200, resp_content_type = Some ''application/json'',
          resp_text = ''{"usage":null}'',
          resp_json = Inr (JObj [(''usage'', JNull)])\<rparr>))
       initial_config (Inr example_request) =
     ((ErrorBody \<lparr>code = ''internal_error'', message = JStr ''error'',
                   transient = False, details = None\<rparr>, 500), [example_call]) \<and>
   chat_completions
       (example_env (Responds \<lparr>resp_status = 200, resp_content_type = Some ''application/json'',
          resp_text = ''{"usage":{"total_tokens":179769313486231590772930519078902473361797697894230657273430081157732675805500963132708477322407536021120113879871393357658789768814416622492847430639474124377767893424865485276302219601246094119453082952085005768838150682342462881473913110540827237163350510684586298239947245938479716304835356329624224137216}}'',
          resp_json = Inr (JObj [(''usage'', JObj [(''total_tokens'', JInt (2 ^ 1024))])])\<rparr>))
       initial_config (Inr example_request) =
     ((ErrorBody \<lparr>code = ''internal_error'', message = JStr ''error'',
                   transient = False, details = None\<rparr>, 500), [example_call])\<close>
proof -
  have a: "add_cost (JObj [(''usage'', JNull)]) = Inl TypeError"
    by (simp add: add_cost_def)
  have b: "add_cost (JObj [(''usage'', JObj [(''total_tokens'', JInt (2 ^ 1024))])])
      = Inl OverflowError"
    unfolding add_cost_def
    by (simp add: float_of_int_overflow del: power_numeral)
  show ?thesis
    unfolding example_chat
    by (simp add: handle_upstream_def a b internal_error_def example_env_def
        del: power_numeral)
qed

end
